theory Spec2Isabelle
  imports Complex_Main "HOL-Library.Product_Lexorder" "HOL-Library.List_Lexorder"
    "HOL-Library.Multiset"
begin

section \<open>Python values used by the reports router\<close>

text \<open>
  A Python \<open>str\<close> is a sequence of Unicode code points; slicing and \<open>len\<close> count code
  points. It is modelled as a list of code points, so that the Japanese literals of
  \<open>routes/reports.py\<close> and the slice \<open>team_name[:15]\<close> mean what they mean in Python.
\<close>

type_synonym pystr = "nat list"

definition ascii :: "string \<Rightarrow> pystr" where
  "ascii s = map of_char s"

text \<open>\<open>str(n)\<close> and the f-string field \<open>{n}\<close> for an \<open>int\<close>: decimal, with a minus sign.\<close>

fun str_nat :: "nat \<Rightarrow> pystr" where
  "str_nat n = (if n < 10 then [48 + n] else str_nat (n div 10) @ [48 + n mod 10])"

definition str_int :: "int \<Rightarrow> pystr" where
  "str_int i = (if i < 0 then ascii ''-'' @ str_nat (nat (- i)) else str_nat (nat i))"

text \<open>The f-string field \<open>{x}\<close> for a nullable integer column: \<open>None\<close> prints as \<open>None\<close>.\<close>

definition fmt_opt_int :: "int option \<Rightarrow> pystr" where
  "fmt_opt_int x = (case x of None \<Rightarrow> ascii ''None'' | Some i \<Rightarrow> str_int i)"

text \<open>\<open>x or 0\<close> for a nullable integer: \<open>None\<close> and \<open>0\<close> are falsy.\<close>

definition or_zero :: "int option \<Rightarrow> int" where
  "or_zero x = (case x of None \<Rightarrow> 0 | Some i \<Rightarrow> if i = 0 then 0 else i)"

text \<open>\<open>a or b\<close> for a nullable string \<open>a\<close>: \<open>None\<close> and the empty string are falsy.\<close>

definition or_str :: "pystr option \<Rightarrow> pystr \<Rightarrow> pystr" where
  "or_str a b = (case a of None \<Rightarrow> b | Some s \<Rightarrow> if s = [] then b else s)"

text \<open>The test \<open>if venue_id:\<close> on an \<open>Optional[int]\<close>: \<open>None\<close> and \<open>0\<close> are falsy.\<close>

definition truthy_int :: "int option \<Rightarrow> bool" where
  "truthy_int x = (case x of None \<Rightarrow> False | Some i \<Rightarrow> i \<noteq> 0)"

text \<open>The test \<open>if group_id:\<close> on an \<open>Optional[str]\<close>.\<close>

definition truthy_str :: "pystr option \<Rightarrow> bool" where
  "truthy_str x = (case x of None \<Rightarrow> False | Some s \<Rightarrow> s \<noteq> [])"

definition zero_pad :: "nat \<Rightarrow> nat \<Rightarrow> pystr" where
  "zero_pad w n = replicate (w - length (str_nat n)) 48 @ str_nat n"

record date =
  year :: nat
  month :: nat
  day :: nat

text \<open>\<open>date.isoformat()\<close>: \<open>YYYY-MM-DD\<close>.\<close>

definition isoformat :: "date \<Rightarrow> pystr" where
  "isoformat d = zero_pad 4 (year d) @ ascii ''-'' @ zero_pad 2 (month d) @ ascii ''-'' @ zero_pad 2 (day d)"

record time_of_day =
  hour :: nat
  minute_of_hour :: nat

text \<open>\<open>time.strftime("%H:%M")\<close>.\<close>

definition strftime_HM :: "time_of_day \<Rightarrow> pystr" where
  "strftime_HM t = zero_pad 2 (hour t) @ ascii '':'' @ zero_pad 2 (minute_of_hour t)"

section \<open>The data model\<close>

text \<open>
  Modelled from the spec: the ORM models (\<open>models/tournament.py\<close>, \<open>models/match.py\<close>,
  \<open>models/venue.py\<close>, \<open>models/team.py\<close>, \<open>models/goal.py\<close>, \<open>models/group.py\<close>,
  \<open>models/standing.py\<close>, \<open>models/report_recipient.py\<close>) and the response schemas
  (\<open>schemas/report.py\<close>) are imported by the router but are not part of the source tree.
  The records below carry the attributes the router reads or writes, with the types the
  spec's data model gives them: the sender fields, a team's short name, the half scores and
  the shoot-out scores are nullable; the stage and status enumerations have the members the
  spec lists. Relationships loaded by the ORM (\<open>match.home_team\<close>, \<open>match.goals\<close>,
  \<open>goal.team\<close>) are fields holding the related rows. Attributes keep their names,
  with a prefix where two models share one: \<open>t_\<close> for a tournament's \<open>id\<close> and
  \<open>name\<close>, \<open>v_\<close> for a venue's, \<open>tm_\<close> for a team's, \<open>g_\<close> for a group's,
  \<open>r_\<close> for a recipient's, \<open>s_\<close> for a standing's \<open>tournament_id\<close>, \<open>m_\<close> for a
  match's \<open>id\<close>, \<open>gr_\<close> for the fields of a goal line.
\<close>

datatype MatchStage = Qualifying | Semifinal | ThirdPlace | Final | Training

datatype MatchStatus = Scheduled | Completed

record Tournament =
  t_id :: int
  t_name :: pystr
  sender_organization :: "pystr option"
  sender_name :: "pystr option"
  sender_contact :: "pystr option"

record Venue =
  v_id :: int
  v_name :: pystr

record Team =
  tm_id :: int
  tm_name :: pystr
  tm_short_name :: "pystr option"

record Goal =
  half :: int
  minute :: int
  team :: Team
  player_name :: pystr
  is_own_goal :: bool
  is_penalty :: bool

record Match =
  m_id :: int
  tournament_id :: int
  match_date :: date
  match_time :: time_of_day
  venue_id :: int
  match_order :: int
  stage :: MatchStage
  status :: MatchStatus
  home_score_half1 :: "int option"
  home_score_half2 :: "int option"
  away_score_half1 :: "int option"
  away_score_half2 :: "int option"
  has_penalty_shootout :: bool
  home_pk :: "int option"
  away_pk :: "int option"
  home_team :: Team
  away_team :: Team
  goals :: "Goal list"

record ReportRecipient =
  r_id :: int
  r_tournament_id :: int
  r_name :: pystr
  r_notes :: pystr

record Group =
  g_id :: pystr
  g_name :: pystr

record Standing =
  s_tournament_id :: int
  group_id :: pystr
  team_id :: int
  rank :: int
  played :: int
  won :: int
  drawn :: int
  lost :: int
  goals_for :: int
  goals_against :: int
  goal_difference :: int

record GoalReport =
  gr_minute :: int
  gr_half :: int
  gr_team_name :: pystr
  gr_player_name :: pystr
  display_text :: pystr

record MatchReport =
  match_number :: int
  kickoff_time :: pystr
  home_team_name :: pystr
  away_team_name :: pystr
  score_half1 :: pystr
  score_half2 :: pystr
  score_total :: pystr
  score_pk :: "pystr option"
  report_goals :: "GoalReport list"

text \<open>The session \<open>db\<close>: the tables the router queries, each a list of rows.\<close>

record database =
  tournaments :: "Tournament list"
  matches :: "Match list"
  venues :: "Venue list"
  recipients :: "ReportRecipient list"
  teams :: "Team list"
  groups :: "Group list"
  standings :: "Standing list"

text \<open>\<open>HTTPException(status_code, detail)\<close>.\<close>

datatype http_error = HTTPException nat pystr

definition tournament_not_found :: "int \<Rightarrow> http_error" where
  "tournament_not_found tid = HTTPException 404
     ([0x5927, 0x4F1A, 0x304C, 0x898B, 0x3064, 0x304B, 0x308A, 0x307E, 0x305B, 0x3093]
        @ ascii '' (ID: '' @ str_int tid @ ascii '')'')"

text \<open>\<open>db.query(Tournament).filter(Tournament.id == tournament_id).first()\<close>.\<close>

definition find_tournament :: "database \<Rightarrow> int \<Rightarrow> Tournament option" where
  "find_tournament db tid = List.find (\<lambda>t. t_id t = tid) (tournaments db)"

section \<open>Match reports\<close>

text \<open>The two half labels of the goal line (the literals of the conditional expression).\<close>

definition half_text_first :: pystr where
  "half_text_first = [0x524D, 0x534A]"

definition half_text_second :: pystr where
  "half_text_second = [0x5F8C, 0x534A]"

text \<open>The body of the inner loop of \<open>get_match_reports\<close>: one goal's display line.\<close>

definition goal_display :: "Goal \<Rightarrow> pystr" where
  "goal_display g =
     (let half_text = (if half g = 1 then half_text_first else half_text_second);
          display = half_text @ str_int (minute g) @ [0x5206] @ ascii '' '' @ tm_name (team g)
                      @ ascii '' '' @ player_name g;
          display = (if is_own_goal g then display @ ascii ''(OG)'' else display);
          display = (if is_penalty g then display @ ascii ''(PK)'' else display)
      in display)"

definition goal_report :: "Goal \<Rightarrow> GoalReport" where
  "goal_report g =
     \<lparr> gr_minute = minute g, gr_half = half g, gr_team_name = tm_name (team g),
       gr_player_name = player_name g, display_text = goal_display g \<rparr>"

text \<open>The body of the outer loop of \<open>get_match_reports\<close>: one match's report row.\<close>

definition match_report :: "Match \<Rightarrow> MatchReport" where
  "match_report m =
     (let gs = map goal_report (sort_key (\<lambda>g. (half g, minute g)) (goals m));
          h1 = or_zero (home_score_half1 m);
          h2 = or_zero (home_score_half2 m);
          a1 = or_zero (away_score_half1 m);
          a2 = or_zero (away_score_half2 m);
          pk = (if has_penalty_shootout m
                then Some (fmt_opt_int (home_pk m) @ ascii ''-'' @ fmt_opt_int (away_pk m))
                else None)
      in \<lparr> match_number = match_order m,
           kickoff_time = strftime_HM (match_time m),
           home_team_name = or_str (tm_short_name (home_team m)) (tm_name (home_team m)),
           away_team_name = or_str (tm_short_name (away_team m)) (tm_name (away_team m)),
           score_half1 = str_int h1 @ ascii ''-'' @ str_int a1,
           score_half2 = str_int h2 @ ascii ''-'' @ str_int a2,
           score_total = str_int (h1 + h2) @ ascii ''-'' @ str_int (a1 + a2),
           score_pk = pk,
           report_goals = gs \<rparr>)"

text \<open>
  The query of \<open>get_match_reports\<close>: the four filter conditions, the venue filter when
  \<open>venue_id\<close> is truthy, and the ordering by \<open>(venue_id, match_order)\<close>. The
  \<open>ORDER BY\<close> is a sort by that key; rows with equal keys are left in table order
  (the database fixes no order for them, and nothing proved below depends on it).
\<close>

definition match_reports_query :: "database \<Rightarrow> int \<Rightarrow> date \<Rightarrow> int option \<Rightarrow> Match list" where
  "match_reports_query db tid target_date vid =
     (let q = filter (\<lambda>m. tournament_id m = tid \<and> match_date m = target_date
                          \<and> status m = Completed \<and> stage m \<noteq> Training) (matches db);
          q = (if truthy_int vid then filter (\<lambda>m. venue_id m = the vid) q else q)
      in sort_key (\<lambda>m. (venue_id m, match_order m)) q)"

definition get_match_reports :: "database \<Rightarrow> int \<Rightarrow> date \<Rightarrow> int option \<Rightarrow> MatchReport list" where
  "get_match_reports db tid target_date vid =
     map match_report (match_reports_query db tid target_date vid)"

section \<open>Report data\<close>

record ReportData =
  rd_tournament :: Tournament
  rd_date :: pystr
  rd_venue :: "Venue option"
  rd_matches :: "Match list"
  rd_recipients :: "ReportRecipient list"
  generated_at :: pystr
  generated_by :: pystr

text \<open>The sender line \<open>generated_by\<close> of the report data, also the footer of the standings PDF.\<close>

definition office_name :: pystr where
  "office_name = [0x6D66, 0x548C, 0x30AB, 0x30C3, 0x30D7, 0x904B, 0x55B6, 0x4E8B, 0x52D9, 0x5C40]"

text \<open>
  The match query of \<open>get_report_data\<close>: three filter conditions, the venue filter when
  \<open>venue_id\<close> is truthy, and the ordering by \<open>(venue_id, match_order)\<close>.
\<close>

definition report_data_query :: "database \<Rightarrow> int \<Rightarrow> date \<Rightarrow> int option \<Rightarrow> Match list" where
  "report_data_query db tid target_date vid =
     (let q = filter (\<lambda>m. tournament_id m = tid \<and> match_date m = target_date
                          \<and> stage m \<noteq> Training) (matches db);
          q = (if truthy_int vid then filter (\<lambda>m. venue_id m = the vid) q else q)
      in sort_key (\<lambda>m. (venue_id m, match_order m)) q)"

text \<open>
  \<open>get_report_data\<close>. The clock reading \<open>datetime.now().isoformat()\<close> is the parameter
  \<open>now\<close>.
\<close>

definition get_report_data ::
  "pystr \<Rightarrow> database \<Rightarrow> int \<Rightarrow> date \<Rightarrow> int option \<Rightarrow> http_error + ReportData" where
  "get_report_data now db tid target_date vid =
     (case find_tournament db tid of
        None \<Rightarrow> Inl (tournament_not_found tid)
      | Some tournament \<Rightarrow>
          (let ms = report_data_query db tid target_date vid;
               venue = (if truthy_int vid then List.find (\<lambda>v. v_id v = the vid) (venues db)
                        else None);
               rs = filter (\<lambda>r. r_tournament_id r = tid) (recipients db)
           in Inr \<lparr> rd_tournament = tournament, rd_date = isoformat target_date,
                    rd_venue = venue, rd_matches = ms, rd_recipients = rs,
                    generated_at = now, generated_by = office_name \<rparr>))"

section \<open>Recipients\<close>

text \<open>The list \<open>default_recipients\<close> of \<open>setup_default_recipients\<close>: name and notes.\<close>

definition default_recipients :: "(pystr \<times> pystr) list" where
  "default_recipients =
     [([0x57FC, 0x7389, 0x65B0, 0x805E], [0x30B9, 0x30DD, 0x30FC, 0x30C4, 0x90E8]),
      ([0x30C6, 0x30EC, 0x30D3, 0x57FC, 0x7389], [0x5831, 0x9053, 0x90E8]),
      ([0x30A4, 0x30B7, 0x30AF, 0x30E9], []),
      ([0x57FC, 0x7389, 0x770C, 0x30B5, 0x30C3, 0x30AB, 0x30FC, 0x5354, 0x4F1A], [])]"

text \<open>
  The primary key the database gives an inserted recipient row (autoincrement): one more
  than the largest key in the table.
\<close>

definition next_recipient_id :: "database \<Rightarrow> int" where
  "next_recipient_id db = fold max (map r_id (recipients db)) 0 + 1"

text \<open>
  The loop of \<open>setup_default_recipients\<close>: every entry is made into a row, added to the
  session and appended to \<open>created\<close>; no existing row is looked up.
\<close>

fun add_recipients ::
  "int \<Rightarrow> (pystr \<times> pystr) list \<Rightarrow> database \<times> ReportRecipient list
     \<Rightarrow> database \<times> ReportRecipient list" where
  "add_recipients tid [] (db, created) = (db, created)"
| "add_recipients tid ((nm, nt) # rest) (db, created) =
     (let recipient = \<lparr> r_id = next_recipient_id db, r_tournament_id = tid,
                         r_name = nm, r_notes = nt \<rparr>
      in add_recipients tid rest
           (db\<lparr>recipients := recipients db @ [recipient]\<rparr>, created @ [recipient]))"

definition setup_default_recipients ::
  "database \<Rightarrow> int \<Rightarrow> http_error + (database \<times> ReportRecipient list)" where
  "setup_default_recipients db tid =
     (case find_tournament db tid of
        None \<Rightarrow> Inl (tournament_not_found tid)
      | Some tournament \<Rightarrow> Inr (add_recipients tid default_recipients (db, [])))"

text \<open>\<open>get_recipients\<close>.\<close>

definition get_recipients :: "database \<Rightarrow> int \<Rightarrow> ReportRecipient list" where
  "get_recipients db tid = filter (\<lambda>r. r_tournament_id r = tid) (recipients db)"

section \<open>Sender settings\<close>

text \<open>
  Modelled from the spec: the schema \<open>SenderSettingsUpdate\<close> (\<open>schemas/report.py\<close>) is not
  part of the source tree. It has the three sender fields, each nullable; a request body
  may leave a field unset (\<open>None\<close> below), or set it to a string or to null
  (\<open>Some (Some s)\<close>, \<open>Some None\<close>).
\<close>

datatype sender_field = SenderOrganization | SenderName | SenderContact

record SenderSettingsUpdate =
  set_sender_organization :: "pystr option option"
  set_sender_name :: "pystr option option"
  set_sender_contact :: "pystr option option"

record SenderSettingsResponse =
  resp_sender_organization :: "pystr option"
  resp_sender_name :: "pystr option"
  resp_sender_contact :: "pystr option"

text \<open>\<open>settings.model_dump(by_alias=False, exclude_unset=True)\<close>: the fields that were set.\<close>

definition model_dump_exclude_unset :: "SenderSettingsUpdate \<Rightarrow> (sender_field \<times> pystr option) list" where
  "model_dump_exclude_unset settings =
     (case set_sender_organization settings of None \<Rightarrow> [] | Some v \<Rightarrow> [(SenderOrganization, v)])
     @ (case set_sender_name settings of None \<Rightarrow> [] | Some v \<Rightarrow> [(SenderName, v)])
     @ (case set_sender_contact settings of None \<Rightarrow> [] | Some v \<Rightarrow> [(SenderContact, v)])"

text \<open>\<open>hasattr(tournament, field)\<close>: the tournament row has all three attributes.\<close>

fun hasattr_tournament :: "Tournament \<Rightarrow> sender_field \<Rightarrow> bool" where
  "hasattr_tournament t f = True"

fun setattr_tournament :: "Tournament \<Rightarrow> sender_field \<Rightarrow> pystr option \<Rightarrow> Tournament" where
  "setattr_tournament t SenderOrganization v = t\<lparr>sender_organization := v\<rparr>"
| "setattr_tournament t SenderName v = t\<lparr>sender_name := v\<rparr>"
| "setattr_tournament t SenderContact v = t\<lparr>sender_contact := v\<rparr>"

text \<open>The loop \<open>for field, value in update_data.items()\<close>.\<close>

fun apply_update :: "(sender_field \<times> pystr option) list \<Rightarrow> Tournament \<Rightarrow> Tournament" where
  "apply_update [] t = t"
| "apply_update ((f, v) # rest) t =
     apply_update rest (if hasattr_tournament t f then setattr_tournament t f v else t)"

text \<open>Writing the changed row back: the row \<open>first()\<close> returned is the one replaced.\<close>

fun replace_first :: "('a \<Rightarrow> bool) \<Rightarrow> 'a \<Rightarrow> 'a list \<Rightarrow> 'a list" where
  "replace_first P y [] = []"
| "replace_first P y (x # xs) = (if P x then y # xs else x # replace_first P y xs)"

definition sender_settings_response :: "Tournament \<Rightarrow> SenderSettingsResponse" where
  "sender_settings_response t =
     \<lparr> resp_sender_organization = sender_organization t,
       resp_sender_name = sender_name t,
       resp_sender_contact = sender_contact t \<rparr>"

definition get_sender_settings :: "database \<Rightarrow> int \<Rightarrow> http_error + SenderSettingsResponse" where
  "get_sender_settings db tid =
     (case find_tournament db tid of
        None \<Rightarrow> Inl (tournament_not_found tid)
      | Some tournament \<Rightarrow> Inr (sender_settings_response tournament))"

definition update_sender_settings ::
  "database \<Rightarrow> int \<Rightarrow> SenderSettingsUpdate \<Rightarrow> http_error + (database \<times> SenderSettingsResponse)" where
  "update_sender_settings db tid settings =
     (case find_tournament db tid of
        None \<Rightarrow> Inl (tournament_not_found tid)
      | Some tournament \<Rightarrow>
          (let update_data = model_dump_exclude_unset settings;
               tournament = apply_update update_data tournament;
               db = db\<lparr>tournaments := replace_first (\<lambda>t. t_id t = tid) tournament (tournaments db)\<rparr>
           in Inr (db, sender_settings_response tournament)))"

section \<open>PDF and Excel export of the daily report\<close>

record 'b StreamingResponse =
  body :: 'b
  media_type :: pystr
  content_disposition :: pystr

text \<open>The file name both exports build: the suffix is added when \<open>venue_id\<close> is truthy.\<close>

definition report_filename :: "date \<Rightarrow> int option \<Rightarrow> pystr \<Rightarrow> pystr" where
  "report_filename target_date vid ext =
     (let filename = ascii ''report_'' @ isoformat target_date;
          filename = (if truthy_int vid then filename @ ascii ''_venue'' @ str_int (the vid)
                      else filename)
      in filename @ ext)"

text \<open>
  \<open>export_report_pdf\<close> and \<open>export_report_excel\<close>. The renderers
  \<open>ReportService.generate_pdf\<close> and \<open>ReportService.generate_excel\<close>
  (\<open>services/report_service.py\<close>) are not part of the source tree; they are the parameter
  \<open>generate\<close>, which returns the buffer or the message of the exception it raised.
\<close>

definition export_report_pdf ::
  "(int \<Rightarrow> date \<Rightarrow> int option \<Rightarrow> pystr + 'b) \<Rightarrow> int \<Rightarrow> date \<Rightarrow> int option
     \<Rightarrow> http_error + 'b StreamingResponse" where
  "export_report_pdf generate tid target_date vid =
     (case generate tid target_date vid of
        Inl e \<Rightarrow> Inl (HTTPException 500
          (ascii ''PDF'' @ [0x751F, 0x6210, 0x306B, 0x5931, 0x6557, 0x3057, 0x307E, 0x3057, 0x305F]
             @ ascii '': '' @ e))
      | Inr pdf_buffer \<Rightarrow>
          Inr \<lparr> body = pdf_buffer, media_type = ascii ''application/pdf'',
                 content_disposition = ascii ''attachment; filename=''
                   @ report_filename target_date vid (ascii ''.pdf'') \<rparr>)"


section \<open>The group standings PDF\<close>

text \<open>
  The ReportLab canvas, as far as \<open>export_group_standings_pdf\<close> uses it: drawing calls
  append an operation to the current page, \<open>showPage\<close> closes the current page and opens an
  empty one, and \<open>save\<close> closes the current page if anything was drawn on it and writes the
  document, the list of its pages. Lengths are in points: \<open>mm\<close> is \<open>72 / 25.4\<close> and an A4
  page is \<open>297 mm\<close> high. The source computes with floating-point numbers; the model
  computes the same expressions exactly, with rationals.
\<close>

datatype draw_op =
  SetFont pystr nat
| DrawString rat rat pystr
| Line rat rat rat rat

type_synonym page = "draw_op list"

record canvas =
  finished_pages :: "page list"
  current_page :: page

definition new_canvas :: canvas where
  "new_canvas = \<lparr> finished_pages = [], current_page = [] \<rparr>"

definition emit :: "draw_op list \<Rightarrow> canvas \<Rightarrow> canvas" where
  "emit ops c = c\<lparr>current_page := current_page c @ ops\<rparr>"

definition showPage :: "canvas \<Rightarrow> canvas" where
  "showPage c = \<lparr> finished_pages = finished_pages c @ [current_page c], current_page = [] \<rparr>"

definition save :: "canvas \<Rightarrow> page list" where
  "save c = (if current_page c \<noteq> [] then finished_pages (showPage c) else finished_pages c)"

definition mm :: rat where
  "mm = 72 / (254 / 10)"

definition height :: rat where
  "height = 297 * mm"

text \<open>
  What the handler finds on the machine it runs on: whether ReportLab can be imported, and
  whether each of the two font files registers.
\<close>

record environment =
  reportlab_installed :: bool
  msgothic_registers :: bool
  hiragino_registers :: bool

definition resolve_font :: "environment \<Rightarrow> pystr" where
  "resolve_font env =
     (if msgothic_registers env then ascii ''Gothic''
      else if hiragino_registers env then ascii ''Gothic''
      else ascii ''Helvetica'')"

text \<open>The standings query: tournament, group when \<open>group_id\<close> is truthy, order by group and rank.\<close>

definition standings_query :: "database \<Rightarrow> int \<Rightarrow> pystr option \<Rightarrow> Standing list" where
  "standings_query db tid gid =
     (let q = filter (\<lambda>s. s_tournament_id s = tid) (standings db);
          q = (if truthy_str gid then filter (\<lambda>s. group_id s = the gid) q else q)
      in sort_key (\<lambda>s. (group_id s, rank s)) q)"

text \<open>The header block of a group: its title, the nine column titles and the rule.\<close>

definition group_header_ops :: "database \<Rightarrow> pystr \<Rightarrow> Standing \<Rightarrow> rat \<Rightarrow> draw_op list" where
  "group_header_ops db font_name s y =
     (let grp = List.find (\<lambda>g. g_id g = group_id s) (groups db);
          group_name = (case grp of Some g \<Rightarrow> g_name g | None \<Rightarrow> group_id s);
          y1 = y - 8 * mm;
          y2 = y1 - 5 * mm
      in [SetFont font_name 12,
          DrawString (30 * mm) y ([0x3010] @ group_name @ [0x3011]),
          SetFont font_name 9,
          DrawString (30 * mm) y1 [0x9806, 0x4F4D],
          DrawString (45 * mm) y1 [0x30C1, 0x30FC, 0x30E0, 0x540D],
          DrawString (100 * mm) y1 [0x8A66, 0x5408],
          DrawString (115 * mm) y1 [0x52DD],
          DrawString (125 * mm) y1 [0x5206],
          DrawString (135 * mm) y1 [0x8CA0],
          DrawString (145 * mm) y1 [0x5F97, 0x70B9],
          DrawString (160 * mm) y1 [0x5931, 0x70B9],
          DrawString (175 * mm) y1 [0x5F97, 0x5931, 0x70B9, 0x5DEE],
          Line (30 * mm) (y2 + 2 * mm) (190 * mm) (y2 + 2 * mm)])"

text \<open>The data row of one standing: nine strings on the line \<open>y\<close>.\<close>

definition row_ops :: "database \<Rightarrow> pystr \<Rightarrow> Standing \<Rightarrow> rat \<Rightarrow> draw_op list" where
  "row_ops db font_name s y =
     (let tm = List.find (\<lambda>t. tm_id t = team_id s) (teams db);
          team_name = (case tm of Some t \<Rightarrow> or_str (tm_short_name t) (tm_name t)
                       | None \<Rightarrow> ascii ''Unknown'')
      in [SetFont font_name 9,
          DrawString (32 * mm) y (str_int (rank s)),
          DrawString (45 * mm) y (take 15 team_name),
          DrawString (102 * mm) y (str_int (played s)),
          DrawString (117 * mm) y (str_int (won s)),
          DrawString (127 * mm) y (str_int (drawn s)),
          DrawString (137 * mm) y (str_int (lost s)),
          DrawString (147 * mm) y (str_int (goals_for s)),
          DrawString (162 * mm) y (str_int (goals_against s)),
          DrawString (177 * mm) y (str_int (goal_difference s))])"

text \<open>
  One iteration of the loop \<open>for standing in standings\<close>. The state is the canvas, the
  cursor \<open>y\<close> and \<open>current_group\<close>. The page break is tested only when the group changes.
\<close>

definition layout_standing ::
  "database \<Rightarrow> pystr \<Rightarrow> Standing \<Rightarrow> canvas \<times> rat \<times> pystr option \<Rightarrow> canvas \<times> rat \<times> pystr option" where
  "layout_standing db font_name s st =
     (let (c, y, current_group) = st;
          (c, y, current_group) =
            (if Some (group_id s) \<noteq> current_group then
               (let y = (if current_group \<noteq> None then y - 10 * mm else y);
                    (c, y) = (if y < 80 * mm
                              then (emit [SetFont font_name 12] (showPage c), height - 20 * mm)
                              else (c, y));
                    c = emit (group_header_ops db font_name s y) c;
                    y = y - 8 * mm - 5 * mm
                in (c, y, Some (group_id s)))
             else (c, y, current_group));
          c = emit (row_ops db font_name s y) c;
          y = y - 5 * mm
      in (c, y, current_group))"

fun layout_loop ::
  "database \<Rightarrow> pystr \<Rightarrow> Standing list \<Rightarrow> canvas \<times> rat \<times> pystr option \<Rightarrow> canvas \<times> rat \<times> pystr option" where
  "layout_loop db font_name [] st = st"
| "layout_loop db font_name (s # rest) st =
     layout_loop db font_name rest (layout_standing db font_name s st)"

text \<open>The footer: the sender line, drawn after the loop at \<open>(30 mm, 15 mm)\<close>.\<close>

definition footer_op :: draw_op where
  "footer_op = DrawString (30 * mm) (15 * mm) office_name"

text \<open>The drawing part of the handler, from the new canvas to \<open>c.save()\<close>.\<close>

definition render_standings :: "database \<Rightarrow> pystr \<Rightarrow> Tournament \<Rightarrow> Standing list \<Rightarrow> page list" where
  "render_standings db font_name tournament sts =
     (let c = new_canvas;
          y = height - 20 * mm;
          c = emit [SetFont font_name 16,
                    DrawString (30 * mm) y (t_name tournament
                      @ ascii '' '' @ [0x30B0, 0x30EB, 0x30FC, 0x30D7, 0x9806, 0x4F4D, 0x8868])] c;
          y = y - 15 * mm;
          (c, y, current_group) = layout_loop db font_name sts (c, y, None);
          c = emit [SetFont font_name 8, footer_op] c
      in save c)"

definition standings_filename :: "int \<Rightarrow> pystr option \<Rightarrow> pystr" where
  "standings_filename tid gid =
     (let filename = ascii ''group_standings_tournament_'' @ str_int tid;
          filename = (if truthy_str gid then filename @ ascii ''_group_'' @ the gid else filename)
      in filename @ ascii ''.pdf'')"

definition export_group_standings_pdf ::
  "environment \<Rightarrow> database \<Rightarrow> int \<Rightarrow> pystr option \<Rightarrow> http_error + (page list) StreamingResponse" where
  "export_group_standings_pdf env db tid gid =
     (case find_tournament db tid of
        None \<Rightarrow> Inl (tournament_not_found tid)
      | Some tournament \<Rightarrow>
          (let sts = standings_query db tid gid in
           if sts = [] then
             Inl (HTTPException 404
               [0x9806, 0x4F4D, 0x30C7, 0x30FC, 0x30BF, 0x304C, 0x898B, 0x3064, 0x304B, 0x308A,
                0x307E, 0x305B, 0x3093])
           else if \<not> reportlab_installed env then
             Inl (HTTPException 500
               (ascii ''ReportLab'' @ [0x304C, 0x30A4, 0x30F3, 0x30B9, 0x30C8, 0x30FC, 0x30EB,
                  0x3055, 0x308C, 0x3066, 0x3044, 0x307E, 0x305B, 0x3093]))
           else
             Inr \<lparr> body = render_standings db (resolve_font env) tournament sts,
                    media_type = ascii ''application/pdf'',
                    content_disposition = ascii ''attachment; filename=''
                      @ standings_filename tid gid \<rparr>))"

text \<open>
  Reading a rendered document: a data row is the rank drawn in the rank column, at
  \<open>32 mm\<close> (no other string is drawn at that abscissa); the footer is the sender line at
  its fixed position.
\<close>

definition is_row_op :: "draw_op \<Rightarrow> bool" where
  "is_row_op op = (case op of DrawString x y t \<Rightarrow> x = 32 * mm | _ \<Rightarrow> False)"


definition footers_on :: "page \<Rightarrow> nat" where
  "footers_on p = length (filter (\<lambda>op. op = footer_op) p)"

text \<open>
  All drawing operations of a canvas, in the order they were issued, and the bookkeeping of
  the loop alone: the number of pages closed so far, the cursor and the current group,
  without the drawing. Both are used to reason about \<open>layout_loop\<close>.
\<close>

definition all_ops :: "canvas \<Rightarrow> draw_op list" where
  "all_ops c = concat (finished_pages c) @ current_page c"

fun cursor_loop :: "Standing list \<Rightarrow> nat \<times> rat \<times> pystr option \<Rightarrow> nat \<times> rat \<times> pystr option" where
  "cursor_loop [] st = st"
| "cursor_loop (s # rest) (n, y, current_group) =
     (if Some (group_id s) \<noteq> current_group then
        (let y = (if current_group \<noteq> None then y - 10 * mm else y) in
         if y < 80 * mm
         then cursor_loop rest (Suc n, height - 20 * mm - 8 * mm - 5 * mm - 5 * mm, Some (group_id s))
         else cursor_loop rest (n, y - 8 * mm - 5 * mm - 5 * mm, Some (group_id s)))
      else cursor_loop rest (n, y - 5 * mm, current_group))"

section \<open>An example tournament\<close>

text \<open>
  One tournament with a completed qualifying match (three goals, and the half scores
  2, 1, 0, 1), a completed training match and a scheduled match, all on the same day at
  the same venue.
\<close>

definition tournament1 :: Tournament where
  "tournament1 = \<lparr> t_id = 1, t_name = ascii ''Urawa Cup'',
       sender_organization = Some (ascii ''Urawa FA''), sender_name = None,
       sender_contact = Some (ascii ''048-000-0000'') \<rparr>"

definition team_a :: Team where
  "team_a = \<lparr> tm_id = 1, tm_name = ascii ''Urawa Minami Junior'',
       tm_short_name = Some (ascii ''Urawa A'') \<rparr>"

definition team_b :: Team where
  "team_b = \<lparr> tm_id = 2, tm_name = ascii ''Omiya'', tm_short_name = None \<rparr>"

definition day1 :: date where
  "day1 = \<lparr> year = 2025, month = 3, day = 29 \<rparr>"

definition goal_at :: "int \<Rightarrow> int \<Rightarrow> bool \<Rightarrow> bool \<Rightarrow> Goal" where
  "goal_at h mi og pk = \<lparr> half = h, minute = mi, team = team_a, player_name = ascii ''Sato'',
       is_own_goal = og, is_penalty = pk \<rparr>"

definition match1 :: Match where
  "match1 = \<lparr> m_id = 1, tournament_id = 1, match_date = day1,
       match_time = \<lparr> hour = 9, minute_of_hour = 30 \<rparr>, venue_id = 1, match_order = 1,
       stage = Qualifying, status = Completed,
       home_score_half1 = Some 2, home_score_half2 = Some 1,
       away_score_half1 = Some 0, away_score_half2 = Some 1,
       has_penalty_shootout = False, home_pk = None, away_pk = None,
       home_team = team_a, away_team = team_b,
       goals = [goal_at 1 10 False False, goal_at 2 5 True True, goal_at 1 40 False False] \<rparr>"

definition match_training :: Match where
  "match_training = match1\<lparr> m_id := 2, match_order := 2, stage := Training, goals := [] \<rparr>"

definition match_scheduled :: Match where
  "match_scheduled = match1\<lparr> m_id := 3, match_order := 3, status := Scheduled,
       home_score_half1 := None, home_score_half2 := None,
       away_score_half1 := None, away_score_half2 := None, goals := [] \<rparr>"

definition db1 :: database where
  "db1 = \<lparr> tournaments = [tournament1],
       matches = [match1, match_training, match_scheduled],
       venues = [\<lparr> v_id = 1, v_name = ascii ''Komaba'' \<rparr>],
       recipients = [], teams = [team_a, team_b], groups = [], standings = [] \<rparr>"

definition clock1 :: pystr where
  "clock1 = ascii ''2025-03-29T18:00:00''"

text \<open>A request body that leaves the organization unset, sets the name and nulls the contact.\<close>

definition patch1 :: SenderSettingsUpdate where
  "patch1 = \<lparr> set_sender_organization = None,
       set_sender_name = Some (Some (ascii ''Tanaka'')),
       set_sender_contact = Some None \<rparr>"



text \<open>
  Standings of six groups of three teams each, in the same tournament; only one group has
  a row in the group table and only two teams have rows in the team table.
\<close>

definition standing_of :: "pystr \<Rightarrow> int \<Rightarrow> int \<Rightarrow> Standing" where
  "standing_of g r t = \<lparr> s_tournament_id = 1, group_id = g, team_id = t, rank = r,
       played = 2, won = 1, drawn = 0, lost = 1, goals_for = 3, goals_against = 2,
       goal_difference = 1 \<rparr>"

definition group_rows :: "pystr \<Rightarrow> int \<Rightarrow> Standing list" where
  "group_rows g k = [standing_of g 1 (k + 1), standing_of g 2 (k + 2), standing_of g 3 (k + 3)]"

definition db2 :: database where
  "db2 = db1\<lparr> groups := [\<lparr> g_id = ascii ''A'', g_name = ascii ''Group A'' \<rparr>],
       standings := group_rows (ascii ''A'') 0 @ group_rows (ascii ''B'') 3
         @ group_rows (ascii ''C'') 6 @ group_rows (ascii ''D'') 9
         @ group_rows (ascii ''E'') 12 @ group_rows (ascii ''F'') 15 \<rparr>"

definition env1 :: environment where
  "env1 = \<lparr> reportlab_installed = True, msgothic_registers = False,
       hiragino_registers = False \<rparr>"

declare str_nat.simps [simp del]

section \<open>Python values: facts\<close>

lemma or_zero_default: "or_zero x = (case x of None \<Rightarrow> 0 | Some i \<Rightarrow> i)"
  by (simp add: or_zero_def split: option.splits)

lemma str_nat_digit: "n < 10 \<Longrightarrow> str_nat n = [48 + n]"
  by (simp add: str_nat.simps)

section \<open>Match reports: scores and goal lines\<close>

text \<open>
  C2. For every match, the report row has \<open>score_half1 = "{home_h1}-{away_h1}"\<close>,
  \<open>score_half2 = "{home_h2}-{away_h2}"\<close> and
  \<open>score_total = "{home_h1+home_h2}-{away_h1+away_h2}"\<close>, where an absent half score
  counts as 0 both in the strings and in the sums.
\<close>

theorem match_report_scores:
  "score_half1 (match_report m) =
     str_int (case home_score_half1 m of None \<Rightarrow> 0 | Some n \<Rightarrow> n) @ ascii ''-''
       @ str_int (case away_score_half1 m of None \<Rightarrow> 0 | Some n \<Rightarrow> n)
   \<and> score_half2 (match_report m) =
     str_int (case home_score_half2 m of None \<Rightarrow> 0 | Some n \<Rightarrow> n) @ ascii ''-''
       @ str_int (case away_score_half2 m of None \<Rightarrow> 0 | Some n \<Rightarrow> n)
   \<and> score_total (match_report m) =
     str_int ((case home_score_half1 m of None \<Rightarrow> 0 | Some n \<Rightarrow> n)
              + (case home_score_half2 m of None \<Rightarrow> 0 | Some n \<Rightarrow> n)) @ ascii ''-''
       @ str_int ((case away_score_half1 m of None \<Rightarrow> 0 | Some n \<Rightarrow> n)
              + (case away_score_half2 m of None \<Rightarrow> 0 | Some n \<Rightarrow> n))"
  by (simp add: match_report_def Let_def or_zero_default)

text \<open>The half scores 2, 1, 0, 1 give \<open>2-0\<close>, \<open>1-1\<close> and \<open>3-1\<close>.\<close>

theorem match_report_scores_witness:
  "score_half1 (match_report match1) = ascii ''2-0''
   \<and> score_half2 (match_report match1) = ascii ''1-1''
   \<and> score_total (match_report match1) = ascii ''3-1''"
  using match_report_scores [of match1]
  by (simp add: match1_def str_int_def str_nat_digit ascii_def)

lemma goal_display_eq:
  "goal_display g =
     (if half g = 1 then half_text_first else half_text_second) @ str_int (minute g)
       @ [0x5206] @ ascii '' '' @ tm_name (team g) @ ascii '' '' @ player_name g
       @ (if is_own_goal g then ascii ''(OG)'' else [])
       @ (if is_penalty g then ascii ''(PK)'' else [])"
  by (simp add: goal_display_def Let_def)

lemma goal_report_key: "(\<lambda>r. (gr_half r, gr_minute r)) \<circ> goal_report = (\<lambda>g. (half g, minute g))"
  by (rule ext) (simp add: goal_report_def)

text \<open>
  C4. The goal lines of a match report are its goals, sorted ascending by
  \<open>(half, minute)\<close>, goals with equal keys keeping their order; the label of half 1 differs
  from the label of half 2; and the own-goal and penalty markers are appended in that
  order, each on its own flag, so that a goal with both flags ends in \<open>(OG)(PK)\<close>.
\<close>

theorem goal_reports_sorted_labelled:
  "sorted (map (\<lambda>r. (gr_half r, gr_minute r)) (report_goals (match_report m)))
   \<and> mset (report_goals (match_report m)) = image_mset goal_report (mset (goals m))
   \<and> filter (\<lambda>r. (gr_half r, gr_minute r) = k) (report_goals (match_report m))
       = map goal_report (filter (\<lambda>g. (half g, minute g) = k) (goals m))
   \<and> half_text_first \<noteq> half_text_second
   \<and> display_text (goal_report g) =
       (if half g = 1 then half_text_first else half_text_second) @ str_int (minute g)
         @ [0x5206] @ ascii '' '' @ tm_name (team g) @ ascii '' '' @ player_name g
         @ (if is_own_goal g then ascii ''(OG)'' else [])
         @ (if is_penalty g then ascii ''(PK)'' else [])"
proof -
  let ?key = "\<lambda>g. (half g, minute g)"
  have gs: "report_goals (match_report m) = map goal_report (sort_key ?key (goals m))"
    by (simp add: match_report_def Let_def)
  have "map (\<lambda>r. (gr_half r, gr_minute r)) (report_goals (match_report m))
          = map ?key (sort_key ?key (goals m))"
    by (simp add: gs goal_report_key)
  then have s: "sorted (map (\<lambda>r. (gr_half r, gr_minute r)) (report_goals (match_report m)))"
    by simp
  have p: "mset (report_goals (match_report m)) = image_mset goal_report (mset (goals m))"
    by (simp add: gs)
  have "filter (\<lambda>r. (gr_half r, gr_minute r) = k) (map goal_report (sort_key ?key (goals m)))
          = map goal_report (filter (\<lambda>g. ?key g = k) (sort_key ?key (goals m)))"
    by (simp add: filter_map comp_def goal_report_def)
  then have st: "filter (\<lambda>r. (gr_half r, gr_minute r) = k) (report_goals (match_report m))
       = map goal_report (filter (\<lambda>g. ?key g = k) (goals m))"
    by (simp add: gs sort_key_stable)
  have l: "half_text_first \<noteq> half_text_second"
    by (simp add: half_text_first_def half_text_second_def)
  have d: "display_text (goal_report g) = goal_display g"
    by (simp add: goal_report_def)
  show ?thesis
    using s p st l by (simp add: d goal_display_eq)
qed

text \<open>
  Goals at (1, 10), (2, 5), (1, 40) are reported in the order (1, 10), (1, 40), (2, 5);
  the goal of the second half, an own goal from a penalty, carries both markers.
\<close>

theorem goal_reports_sorted_labelled_witness:
  "map (\<lambda>r. (gr_half r, gr_minute r)) (report_goals (match_report match1))
     = [(1, 10), (1, 40), (2, 5)]
   \<and> sorted (map (\<lambda>r. (gr_half r, gr_minute r)) (report_goals (match_report match1)))
   \<and> display_text (goal_report (goal_at 2 5 True True)) =
       half_text_second @ ascii ''5'' @ [0x5206] @ ascii '' Urawa Minami Junior Sato(OG)(PK)''"
  using goal_reports_sorted_labelled [of match1 "(1, 10)" "goal_at 2 5 True True"]
  by (simp add: match_report_def match1_def goal_at_def goal_report_def Let_def team_a_def
      str_int_def str_nat_digit ascii_def)

section \<open>The match queries\<close>

lemma db1_matches: "get_match_reports db1 1 day1 None = [match_report match1]"
  by (simp add: get_match_reports_def match_reports_query_def db1_def match1_def
        match_training_def match_scheduled_def truthy_int_def)

lemma report_data_query_stage:
  "m \<in> set (report_data_query db tid d vid) \<Longrightarrow> stage m \<noteq> Training"
  by (auto simp: report_data_query_def Let_def split: if_splits)

text \<open>
  C1. A match whose stage is training is excluded from the report data and from the match
  reports, whatever the tournament, the date and the venue asked for: taking the row out
  of the match table changes neither answer, and it is not among the matches of the
  report data.
\<close>

theorem training_matches_excluded:
  assumes "stage m = Training"
  shows "get_report_data now (db\<lparr>matches := xs @ m # ys\<rparr>) tid d vid
           = get_report_data now (db\<lparr>matches := xs @ ys\<rparr>) tid d vid
       \<and> get_match_reports (db\<lparr>matches := xs @ m # ys\<rparr>) tid d vid
           = get_match_reports (db\<lparr>matches := xs @ ys\<rparr>) tid d vid
       \<and> (\<forall>rd. get_report_data now (db\<lparr>matches := xs @ m # ys\<rparr>) tid d vid = Inr rd
              \<longrightarrow> m \<notin> set (rd_matches rd))"
proof -
  have q1: "report_data_query (db\<lparr>matches := xs @ m # ys\<rparr>) tid d vid
              = report_data_query (db\<lparr>matches := xs @ ys\<rparr>) tid d vid"
    using assms by (simp add: report_data_query_def)
  have q2: "match_reports_query (db\<lparr>matches := xs @ m # ys\<rparr>) tid d vid
              = match_reports_query (db\<lparr>matches := xs @ ys\<rparr>) tid d vid"
    using assms by (simp add: match_reports_query_def)
  have a: "get_report_data now (db\<lparr>matches := xs @ m # ys\<rparr>) tid d vid
           = get_report_data now (db\<lparr>matches := xs @ ys\<rparr>) tid d vid"
    by (simp add: get_report_data_def q1 find_tournament_def Let_def split: option.splits)
  have b: "get_match_reports (db\<lparr>matches := xs @ m # ys\<rparr>) tid d vid
           = get_match_reports (db\<lparr>matches := xs @ ys\<rparr>) tid d vid"
    by (simp add: get_match_reports_def q2)
  have c: "m \<notin> set (rd_matches rd)"
    if "get_report_data now (db\<lparr>matches := xs @ m # ys\<rparr>) tid d vid = Inr rd" for rd
  proof -
    from that have "rd_matches rd = report_data_query (db\<lparr>matches := xs @ m # ys\<rparr>) tid d vid"
      by (auto simp: get_report_data_def Let_def split: option.splits)
    then show ?thesis
      using report_data_query_stage assms by metis
  qed
  show ?thesis using a b c by blast
qed

text \<open>
  In the example the training match is dropped from both answers; the match reports
  hold the row of the completed qualifying match only.
\<close>

theorem training_matches_excluded_witness:
  "stage match_training = Training
   \<and> get_report_data clock1 db1 1 day1 None
       = get_report_data clock1 (db1\<lparr>matches := [match1, match_scheduled]\<rparr>) 1 day1 None
   \<and> get_match_reports db1 1 day1 None
       = get_match_reports (db1\<lparr>matches := [match1, match_scheduled]\<rparr>) 1 day1 None
   \<and> get_match_reports db1 1 day1 None = [match_report match1]"
proof -
  have h: "stage match_training = Training"
    by (simp add: match_training_def)
  have d: "db1\<lparr>matches := [match1] @ match_training # [match_scheduled]\<rparr> = db1"
    by (simp add: db1_def)
  show ?thesis
    using h training_matches_excluded [where m = match_training and now = clock1 and db = db1
        and xs = "[match1]" and ys = "[match_scheduled]" and tid = 1 and d = day1 and vid = None]
    unfolding d by (simp add: db1_matches)
qed

text \<open>
  C3. The match reports are the report rows of exactly the matches of the scope
  (tournament, date, and venue when one is given and is not 0) whose status is completed
  and whose stage is not training, one row for each such match; a match that is not
  completed contributes nothing.
\<close>

theorem match_reports_completed_only:
  "(\<exists>ms. get_match_reports db tid d vid = map match_report ms
         \<and> mset ms = filter_mset (\<lambda>m. tournament_id m = tid \<and> match_date m = d
                \<and> (case vid of None \<Rightarrow> True | Some v \<Rightarrow> v = 0 \<or> venue_id m = v)
                \<and> status m = Completed \<and> stage m \<noteq> Training) (mset (matches db)))
   \<and> (status m \<noteq> Completed \<longrightarrow>
        get_match_reports (db\<lparr>matches := xs @ m # ys\<rparr>) tid d vid
          = get_match_reports (db\<lparr>matches := xs @ ys\<rparr>) tid d vid)"
proof -
  let ?P = "\<lambda>m. tournament_id m = tid \<and> match_date m = d
                \<and> (case vid of None \<Rightarrow> True | Some v \<Rightarrow> v = 0 \<or> venue_id m = v)
                \<and> status m = Completed \<and> stage m \<noteq> Training"
  have "mset (match_reports_query db tid d vid) = filter_mset ?P (mset (matches db))"
    by (cases vid) (auto simp: match_reports_query_def Let_def truthy_int_def
          intro!: filter_mset_cong)
  then have a: "\<exists>ms. get_match_reports db tid d vid = map match_report ms
         \<and> mset ms = filter_mset ?P (mset (matches db))"
    unfolding get_match_reports_def by blast
  have b: "get_match_reports (db\<lparr>matches := xs @ m # ys\<rparr>) tid d vid
          = get_match_reports (db\<lparr>matches := xs @ ys\<rparr>) tid d vid" if "status m \<noteq> Completed"
    using that by (simp add: get_match_reports_def match_reports_query_def)
  show ?thesis using a b by blast
qed

text \<open>In the example the scheduled match has no row: the one row is that of \<open>match1\<close>.\<close>

theorem match_reports_completed_only_witness:
  "status match_scheduled \<noteq> Completed
   \<and> get_match_reports db1 1 day1 None
       = get_match_reports (db1\<lparr>matches := [match1, match_training]\<rparr>) 1 day1 None
   \<and> (\<exists>ms. get_match_reports db1 1 day1 None = map match_report ms \<and> mset ms = {#match1#})"
proof -
  have h: "status match_scheduled \<noteq> Completed"
    by (simp add: match_scheduled_def)
  have d: "db1\<lparr>matches := [match1, match_training] @ match_scheduled # []\<rparr> = db1"
    by (simp add: db1_def)
  have f: "filter_mset (\<lambda>m. tournament_id m = 1 \<and> match_date m = day1
                \<and> (case None :: int option of None \<Rightarrow> True | Some v \<Rightarrow> v = 0 \<or> venue_id m = v)
                \<and> status m = Completed \<and> stage m \<noteq> Training) (mset (matches db1)) = {#match1#}"
    by (simp add: db1_def match1_def match_training_def match_scheduled_def)
  note T = match_reports_completed_only [where db = db1 and tid = 1 and d = day1 and vid = None
      and m = match_scheduled and xs = "[match1, match_training]" and ys = "[]"]
  from T have a: "\<exists>ms. get_match_reports db1 1 day1 None = map match_report ms \<and> mset ms = {#match1#}"
    unfolding f by blast
  from T h have b: "get_match_reports db1 1 day1 None
       = get_match_reports (db1\<lparr>matches := [match1, match_training]\<rparr>) 1 day1 None"
    unfolding d by simp
  show ?thesis
    using h a b by blast
qed





lemma get_report_data_not_found:
  "find_tournament db tid = None \<Longrightarrow> get_report_data now db tid d vid = Inl (tournament_not_found tid)"
  by (simp add: get_report_data_def)

lemma export_report_pdf_never_404:
  "export_report_pdf generate tid d vid \<noteq> Inl (HTTPException 404 msg)"
  by (simp add: export_report_pdf_def split: sum.splits)

text \<open>
  C7. The claim asks for NotFound on every report query of a tournament that does not
  exist. \<open>get_report_data\<close> raises it; \<open>get_match_reports\<close> never looks the tournament
  up and returns the empty list. Tournament 99 does not exist in the example database.
\<close>

theorem match_reports_missing_tournament:
  "find_tournament db1 99 = None
   \<and> get_report_data clock1 db1 99 day1 None = Inl (tournament_not_found 99)
   \<and> get_match_reports db1 99 day1 None = []"
  by (simp add: find_tournament_def get_report_data_def get_match_reports_def
      match_reports_query_def db1_def tournament1_def match1_def match_training_def
      match_scheduled_def truthy_int_def)

section \<open>Sender settings and recipients\<close>

lemma find_replace_first_same:
  "List.find P xs = Some x \<Longrightarrow> P y \<Longrightarrow> List.find P (replace_first P y xs) = Some y"
  by (induction xs) (auto split: if_splits)

lemma find_replace_first_other:
  "(\<And>x. P x \<Longrightarrow> \<not> Q x) \<Longrightarrow> \<not> Q y \<Longrightarrow> List.find Q (replace_first P y xs) = List.find Q xs"
  by (induction xs) auto

lemma find_tournament_id: "find_tournament db tid = Some t \<Longrightarrow> t_id t = tid"
  by (auto simp: find_tournament_def find_Some_iff)

lemma apply_update_model_dump:
  "apply_update (model_dump_exclude_unset settings) t =
     t\<lparr> sender_organization :=
          (case set_sender_organization settings of None \<Rightarrow> sender_organization t | Some v \<Rightarrow> v),
        sender_name :=
          (case set_sender_name settings of None \<Rightarrow> sender_name t | Some v \<Rightarrow> v),
        sender_contact :=
          (case set_sender_contact settings of None \<Rightarrow> sender_contact t | Some v \<Rightarrow> v) \<rparr>"
  by (simp add: model_dump_exclude_unset_def split: option.splits)

text \<open>
  C8. A PATCH of the sender settings of an existing tournament changes exactly the sender
  fields the request body sets (to the value given, null included); every field it leaves
  unset keeps its value, as do the tournament's other attributes, the other tournaments
  and the other tables.
\<close>

theorem update_sender_settings_partial:
  assumes "find_tournament db tid = Some t"
  shows "\<exists>db' t'. update_sender_settings db tid settings = Inr (db', sender_settings_response t')
     \<and> find_tournament db' tid = Some t'
     \<and> t' = t\<lparr> sender_organization :=
          (case set_sender_organization settings of None \<Rightarrow> sender_organization t | Some v \<Rightarrow> v),
        sender_name :=
          (case set_sender_name settings of None \<Rightarrow> sender_name t | Some v \<Rightarrow> v),
        sender_contact :=
          (case set_sender_contact settings of None \<Rightarrow> sender_contact t | Some v \<Rightarrow> v) \<rparr>
     \<and> (\<forall>other. other \<noteq> tid \<longrightarrow> find_tournament db' other = find_tournament db other)
     \<and> db' = db\<lparr>tournaments := tournaments db'\<rparr>"
proof -
  let ?t' = "apply_update (model_dump_exclude_unset settings) t"
  let ?db' = "db\<lparr>tournaments := replace_first (\<lambda>t. t_id t = tid) ?t' (tournaments db)\<rparr>"
  have r: "update_sender_settings db tid settings = Inr (?db', sender_settings_response ?t')"
    using assms by (simp add: update_sender_settings_def Let_def)
  have i: "t_id ?t' = tid"
    using find_tournament_id [OF assms] by (simp add: apply_update_model_dump)
  have f: "find_tournament ?db' tid = Some ?t'"
    using assms i by (simp add: find_tournament_def find_replace_first_same)
  have o: "find_tournament ?db' other = find_tournament db other" if "other \<noteq> tid" for other
  proof -
    have "List.find (\<lambda>t. t_id t = other) (replace_first (\<lambda>t. t_id t = tid) ?t' (tournaments db))
            = List.find (\<lambda>t. t_id t = other) (tournaments db)"
      by (rule find_replace_first_other) (use that i in auto)
    then show ?thesis by (simp add: find_tournament_def)
  qed
  have d: "?db' = db\<lparr>tournaments := tournaments ?db'\<rparr>"
    by simp
  show ?thesis
    using r f o d apply_update_model_dump by blast
qed

text \<open>
  The example body sets the name, nulls the contact and leaves the organization unset:
  the organization is kept.
\<close>

theorem update_sender_settings_partial_witness:
  "find_tournament db1 1 = Some tournament1
   \<and> (\<exists>db'. update_sender_settings db1 1 patch1 =
         Inr (db', \<lparr> resp_sender_organization = Some (ascii ''Urawa FA''),
                    resp_sender_name = Some (ascii ''Tanaka''),
                    resp_sender_contact = None \<rparr>)
         \<and> find_tournament db' 1 = Some (tournament1\<lparr> sender_name := Some (ascii ''Tanaka''),
                                            sender_contact := None \<rparr>))"
proof -
  have h: "find_tournament db1 1 = Some tournament1"
    by (simp add: find_tournament_def db1_def tournament1_def)
  show ?thesis
    using h update_sender_settings_partial [where db = db1 and tid = 1 and t = tournament1
        and settings = patch1]
    by (auto simp: patch1_def sender_settings_response_def tournament1_def)
qed

lemma find_tournament_add_recipients:
  "find_tournament (fst (add_recipients tid ds (db, cr))) x = find_tournament db x"
  by (induction ds arbitrary: db cr) (auto simp: find_tournament_def Let_def)

text \<open>
  C9. Setting up the default recipients is not idempotent: on an existing tournament each
  call inserts the four default rows, so after a second call the tournament has eight
  more recipients than before the first, and the table differs from the one the first call
  left.
\<close>

theorem setup_default_recipients_not_idempotent:
  assumes "find_tournament db tid = Some t"
  shows "\<exists>db1 c1 db2 c2.
       setup_default_recipients db tid = Inr (db1, c1)
     \<and> setup_default_recipients db1 tid = Inr (db2, c2)
     \<and> recipients db1 = recipients db @ c1
     \<and> recipients db2 = recipients db @ c1 @ c2
     \<and> map (\<lambda>r. (r_tournament_id r, r_name r, r_notes r)) c1 = map (\<lambda>(n, k). (tid, n, k)) default_recipients
     \<and> map (\<lambda>r. (r_tournament_id r, r_name r, r_notes r)) c2 = map (\<lambda>(n, k). (tid, n, k)) default_recipients
     \<and> length (get_recipients db1 tid) = length (get_recipients db tid) + 4
     \<and> length (get_recipients db2 tid) = length (get_recipients db tid) + 8
     \<and> db2 \<noteq> db1"
proof -
  obtain db1 c1 where s1: "add_recipients tid default_recipients (db, []) = (db1, c1)"
    by (cases "add_recipients tid default_recipients (db, [])") auto
  have r1: "setup_default_recipients db tid = Inr (db1, c1)"
    using assms s1 by (simp add: setup_default_recipients_def)
  have t1: "find_tournament db1 tid = Some t"
    using find_tournament_add_recipients [of tid default_recipients db "[]" tid] s1 assms by simp
  obtain db2 c2 where s2: "add_recipients tid default_recipients (db1, []) = (db2, c2)"
    by (cases "add_recipients tid default_recipients (db1, [])") auto
  have r2: "setup_default_recipients db1 tid = Inr (db2, c2)"
    using t1 s2 by (simp add: setup_default_recipients_def)
  have e1: "recipients db1 = recipients db @ c1
      \<and> map (\<lambda>r. (r_tournament_id r, r_name r, r_notes r)) c1 = map (\<lambda>(n, k). (tid, n, k)) default_recipients"
    using s1 by (auto simp: default_recipients_def Let_def)
  have e2: "recipients db2 = recipients db1 @ c2
      \<and> map (\<lambda>r. (r_tournament_id r, r_name r, r_notes r)) c2 = map (\<lambda>(n, k). (tid, n, k)) default_recipients"
    using s2 by (auto simp: default_recipients_def Let_def)
  have l1: "length (filter (\<lambda>r. r_tournament_id r = tid) c1) = 4"
    using s1 by (auto simp: default_recipients_def Let_def)
  have l2: "length (filter (\<lambda>r. r_tournament_id r = tid) c2) = 4"
    using s2 by (auto simp: default_recipients_def Let_def)
  have n: "db2 \<noteq> db1"
  proof
    assume "db2 = db1"
    then have "recipients db1 @ c2 = recipients db1" using e2 by simp
    then have "c2 = []" by simp
    then show False using l2 by simp
  qed
  show ?thesis
    using r1 r2 e1 e2 l1 l2 n by (auto simp: get_recipients_def)
qed

text \<open>On the example database, empty of recipients, two calls leave eight rows.\<close>

theorem setup_default_recipients_not_idempotent_witness:
  "find_tournament db1 1 = Some tournament1
   \<and> (\<exists>db' c1 db'' c2. setup_default_recipients db1 1 = Inr (db', c1)
         \<and> setup_default_recipients db' 1 = Inr (db'', c2)
         \<and> length (get_recipients db' 1) = 4
         \<and> length (get_recipients db'' 1) = 8
         \<and> map r_name (recipients db'') = map fst default_recipients @ map fst default_recipients)"
proof -
  have h: "find_tournament db1 1 = Some tournament1"
    by (simp add: find_tournament_def db1_def tournament1_def)
  have e: "get_recipients db1 1 = []" "recipients db1 = []"
    by (simp_all add: get_recipients_def db1_def)
  obtain da c1 db c2 where w:
     "setup_default_recipients db1 1 = Inr (da, c1)"
     "setup_default_recipients da 1 = Inr (db, c2)"
     "recipients db = recipients db1 @ c1 @ c2"
     "map (\<lambda>r. (r_tournament_id r, r_name r, r_notes r)) c1 = map (\<lambda>(n, k). (1, n, k)) default_recipients"
     "map (\<lambda>r. (r_tournament_id r, r_name r, r_notes r)) c2 = map (\<lambda>(n, k). (1, n, k)) default_recipients"
     "length (get_recipients da 1) = length (get_recipients db1 1) + 4"
     "length (get_recipients db 1) = length (get_recipients db1 1) + 8"
    using setup_default_recipients_not_idempotent [OF h] by blast
  have n1: "map r_name c1 = map fst default_recipients"
    using arg_cong [OF w(4), of "map (\<lambda>p. fst (snd p))"] by (simp add: comp_def split_def)
  have n2: "map r_name c2 = map fst default_recipients"
    using arg_cong [OF w(5), of "map (\<lambda>p. fst (snd p))"] by (simp add: comp_def split_def)
  show ?thesis
    using h w(1,2,3,6,7) n1 n2 by (simp add: e)
qed

section \<open>The group standings PDF: rows and footer\<close>

lemma layout_standing_cases:
  "layout_standing db f s (c, y, cg) =
     (if Some (group_id s) \<noteq> cg then
        (let y0 = (if cg \<noteq> None then y - 10 * mm else y) in
         if y0 < 80 * mm
         then (emit (row_ops db f s (height - 20 * mm - 8 * mm - 5 * mm))
                 (emit (group_header_ops db f s (height - 20 * mm))
                    (emit [SetFont f 12] (showPage c))),
               height - 20 * mm - 8 * mm - 5 * mm - 5 * mm, Some (group_id s))
         else (emit (row_ops db f s (y0 - 8 * mm - 5 * mm)) (emit (group_header_ops db f s y0) c),
               y0 - 8 * mm - 5 * mm - 5 * mm, Some (group_id s)))
      else (emit (row_ops db f s y) c, y - 5 * mm, cg))"
  by (simp add: layout_standing_def Let_def)

lemma all_ops_emit: "all_ops (emit ops c) = all_ops c @ ops"
  by (simp add: all_ops_def emit_def)

lemma all_ops_showPage: "all_ops (showPage c) = all_ops c"
  by (simp add: all_ops_def showPage_def)

lemma mm_pos: "0 < mm"
  by (simp add: mm_def)

lemma rows_header: "filter is_row_op (group_header_ops db f s y) = []"
  using mm_pos by (simp add: group_header_ops_def is_row_op_def Let_def)

lemma rows_row: "length (filter is_row_op (row_ops db f s y)) = 1"
  using mm_pos by (simp add: row_ops_def is_row_op_def Let_def)

lemma footer_header: "filter (\<lambda>op. op = footer_op) (group_header_ops db f s y) = []"
  using mm_pos by (simp add: group_header_ops_def footer_op_def office_name_def Let_def)

lemma footer_row: "filter (\<lambda>op. op = footer_op) (row_ops db f s y) = []"
  using mm_pos by (simp add: row_ops_def footer_op_def Let_def)

lemma footer_setfont: "SetFont f n \<noteq> footer_op"
  by (simp add: footer_op_def)

lemma is_row_setfont: "\<not> is_row_op (SetFont f n)"
  by (simp add: is_row_op_def)

lemma layout_standing_rows:
  "length (filter is_row_op (all_ops (fst (layout_standing db f s (c, y, cg)))))
     = Suc (length (filter is_row_op (all_ops c)))"
  by (simp add: layout_standing_cases Let_def all_ops_emit all_ops_showPage rows_header rows_row
      is_row_setfont)

lemma layout_standing_footers:
  "filter (\<lambda>op. op = footer_op) (all_ops (fst (layout_standing db f s (c, y, cg))))
     = filter (\<lambda>op. op = footer_op) (all_ops c)"
  by (simp add: layout_standing_cases Let_def all_ops_emit all_ops_showPage footer_header footer_row
      footer_setfont)

lemma layout_loop_rows:
  "length (filter is_row_op (all_ops (fst (layout_loop db f sts st))))
     = length (filter is_row_op (all_ops (fst st))) + length sts"
proof (induction sts arbitrary: st)
  case Nil
  then show ?case by simp
next
  case (Cons s sts)
  obtain c y cg where st: "st = (c, y, cg)" by (cases st) auto
  show ?case
    using Cons.IH [of "layout_standing db f s (c, y, cg)"] layout_standing_rows [of db f s c y cg]
    by (simp add: st)
qed

lemma layout_loop_footers:
  "filter (\<lambda>op. op = footer_op) (all_ops (fst (layout_loop db f sts st)))
     = filter (\<lambda>op. op = footer_op) (all_ops (fst st))"
proof (induction sts arbitrary: st)
  case Nil
  then show ?case by simp
next
  case (Cons s sts)
  obtain c y cg where st: "st = (c, y, cg)" by (cases st) auto
  show ?case
    using Cons.IH [of "layout_standing db f s (c, y, cg)"] layout_standing_footers [of db f s c y cg]
    by (simp add: st)
qed

lemma layout_standing_cursor:
  "cursor_loop (s # rest) (length (finished_pages c), y, cg)
     = (case layout_standing db f s (c, y, cg) of (c', y', cg') \<Rightarrow>
          cursor_loop rest (length (finished_pages c'), y', cg'))"
  by (simp add: layout_standing_cases Let_def emit_def showPage_def)

lemma layout_loop_cursor:
  "(case layout_loop db f sts (c, y, cg) of (c', y', cg') \<Rightarrow> (length (finished_pages c'), y', cg'))
     = cursor_loop sts (length (finished_pages c), y, cg)"
proof (induction sts arbitrary: c y cg)
  case Nil
  then show ?case by simp
next
  case (Cons s sts)
  obtain c' y' cg' where st: "layout_standing db f s (c, y, cg) = (c', y', cg')"
    by (cases "layout_standing db f s (c, y, cg)") auto
  show ?case
    using Cons.IH [of c' y' cg'] layout_standing_cursor [of s sts c y cg db f]
    by (simp add: st)
qed


lemma footers_concat_nil:
  "filter (\<lambda>op. op = footer_op) (concat ps) = [] \<Longrightarrow> p \<in> set ps \<Longrightarrow> footers_on p = 0"
  by (induction ps) (auto simp: footers_on_def)

lemma render_standings_shape:
  "\<exists>fin cur. render_standings db f t sts = fin @ [cur @ [SetFont f 8, footer_op]]
      \<and> filter (\<lambda>op. op = footer_op) (concat fin @ cur) = []
      \<and> length (filter is_row_op (concat fin @ cur)) = length sts
      \<and> length fin = fst (cursor_loop sts (0, height - 20 * mm - 15 * mm, None))"
proof -
  let ?c0 = "emit [SetFont f 16, DrawString (30 * mm) (height - 20 * mm)
                (t_name t @ ascii '' '' @ [0x30B0, 0x30EB, 0x30FC, 0x30D7, 0x9806, 0x4F4D, 0x8868])]
              new_canvas"
  let ?st0 = "(?c0, height - 20 * mm - 15 * mm, None :: pystr option)"
  obtain c y cg where l: "layout_loop db f sts ?st0 = (c, y, cg)"
    by (cases "layout_loop db f sts ?st0") auto
  have r: "render_standings db f t sts = finished_pages c @ [current_page c @ [SetFont f 8, footer_op]]"
    unfolding render_standings_def Let_def l by (simp add: save_def emit_def showPage_def)
  have f0: "filter (\<lambda>op. op = footer_op) (all_ops ?c0) = []"
    using mm_pos by (simp add: all_ops_def emit_def new_canvas_def footer_op_def height_def)
  have r0: "filter is_row_op (all_ops ?c0) = []"
    using mm_pos by (simp add: all_ops_def emit_def new_canvas_def is_row_op_def)
  have f: "filter (\<lambda>op. op = footer_op) (all_ops c) = []"
    using layout_loop_footers [of db f sts ?st0] f0 unfolding l by simp
  have n: "length (filter is_row_op (all_ops c)) = length sts"
    using layout_loop_rows [of db f sts ?st0] r0 unfolding l by simp
  have p: "length (finished_pages c) = fst (cursor_loop sts (0, height - 20 * mm - 15 * mm, None))"
    using layout_loop_cursor [of db f sts ?c0 "height - 20 * mm - 15 * mm" None, symmetric]
    unfolding l by (simp add: emit_def new_canvas_def)
  show ?thesis
    using r f n p unfolding all_ops_def by blast
qed

text \<open>
  Within a group the page break is never tested: the cursor goes down by \<open>5 mm\<close> a row,
  without bound, and standings that all belong to one group are drawn on a single page
  however many they are.
\<close>

lemma cursor_same_group:
  "(\<forall>s \<in> set sts. group_id s = g) \<Longrightarrow>
     cursor_loop sts (n, y, Some g) = (n, y - of_nat (length sts) * (5 * mm), Some g)"
  by (induction sts arbitrary: y) (simp_all add: algebra_simps)

lemma single_group_one_page:
  assumes "\<forall>s \<in> set sts. group_id s = g"
  shows "length (render_standings db f t sts) = 1"
proof -
  obtain fin cur where s:
      "render_standings db f t sts = fin @ [cur @ [SetFont f 8, footer_op]]"
      "length fin = fst (cursor_loop sts (0, height - 20 * mm - 15 * mm, None))"
    using render_standings_shape [of db f t sts] by blast
  have "fst (cursor_loop sts (0, height - 20 * mm - 15 * mm, None)) = 0"
  proof (cases sts)
    case Nil
    then show ?thesis by simp
  next
    case (Cons a rest)
    then have r: "\<forall>s \<in> set rest. group_id s = g" and a: "group_id a = g"
      using assms by auto
    have "\<not> height - 20 * mm - 15 * mm < 80 * mm"
      by (simp add: height_def mm_def)
    then show ?thesis
      using cursor_same_group [OF r] by (simp add: Cons a Let_def)
  qed
  then show ?thesis
    using s by simp
qed

lemma find_db2: "find_tournament db2 1 = Some tournament1"
  by (simp add: find_tournament_def db2_def db1_def tournament1_def)

lemma query_db2: "standings_query db2 1 None = standings db2"
  by (simp add: standings_query_def db2_def truthy_str_def group_rows_def standing_of_def
      ascii_def)

lemma cursor_db2: "fst (cursor_loop (standings db2) (0, height - 20 * mm - 15 * mm, None)) = 1"
  by (simp add: db2_def group_rows_def standing_of_def ascii_def mm_def height_def)

lemma export_db2:
  "export_group_standings_pdf env1 db2 1 None =
     Inr \<lparr> body = render_standings db2 (ascii ''Helvetica'') tournament1 (standings db2),
            media_type = ascii ''application/pdf'',
            content_disposition = ascii ''attachment; filename=''
              @ standings_filename 1 None \<rparr>"
proof -
  have "standings db2 \<noteq> []"
    by (simp add: db2_def group_rows_def)
  then show ?thesis
    by (simp add: export_group_standings_pdf_def find_db2 query_db2 env1_def resolve_font_def)
qed

lemma export_body:
  assumes "export_group_standings_pdf env db tid gid = Inr resp"
  shows "\<exists>t. find_tournament db tid = Some t \<and> standings_query db tid gid \<noteq> []
           \<and> reportlab_installed env
           \<and> body resp = render_standings db (resolve_font env) t (standings_query db tid gid)"
  using assms
  by (auto simp: export_group_standings_pdf_def Let_def split: option.splits if_splits)

text \<open>
  C5. As stated (the footer on every page, once per page) the claim fails: the footer is
  drawn once, after the loop, so only the page that is current at the end carries it.
  For eighteen standings in six groups the page break before the sixth group closes a
  first page that has no footer.
\<close>

theorem footer_every_page_counterexample:
  "\<exists>resp. export_group_standings_pdf env1 db2 1 None = Inr resp
      \<and> length (body resp) = 2 \<and> footers_on (hd (body resp)) = 0"
proof -
  obtain fin cur where s:
      "render_standings db2 (ascii ''Helvetica'') tournament1 (standings db2)
         = fin @ [cur @ [SetFont (ascii ''Helvetica'') 8, footer_op]]"
      "filter (\<lambda>op. op = footer_op) (concat fin @ cur) = []"
      "length fin = fst (cursor_loop (standings db2) (0, height - 20 * mm - 15 * mm, None))"
    using render_standings_shape [of db2 "ascii ''Helvetica''" tournament1 "standings db2"]
    by blast
  have n: "length fin = 1"
    using s(3) cursor_db2 by simp
  then obtain p where fin: "fin = [p]"
    by (cases fin) auto
  have "footers_on p = 0"
    using s(2) by (simp add: fin footers_on_def)
  then show ?thesis
    by (simp add: export_db2 s(1) fin)
qed

text \<open>
  C5, as the code has it. In every group-standings PDF the sender line is drawn exactly
  once, at its fixed position, on the last page of the document; the pages closed by a page
  break carry no footer. A document of one page therefore has the footer on its page.
\<close>

theorem footer_on_last_page_only:
  assumes "export_group_standings_pdf env db tid gid = Inr resp"
  shows "body resp \<noteq> [] \<and> footers_on (last (body resp)) = 1
     \<and> (\<forall>p \<in> set (butlast (body resp)). footers_on p = 0)"
proof -
  obtain t where b: "body resp = render_standings db (resolve_font env) t (standings_query db tid gid)"
    using export_body [OF assms] by blast
  obtain fin cur where s:
      "body resp = fin @ [cur @ [SetFont (resolve_font env) 8, footer_op]]"
      "filter (\<lambda>op. op = footer_op) (concat fin @ cur) = []"
    using render_standings_shape [of db "resolve_font env" t "standings_query db tid gid"] b
    by auto
  have l: "footers_on (cur @ [SetFont (resolve_font env) 8, footer_op]) = 1"
    using s(2) by (simp add: footers_on_def footer_setfont)
  have f: "footers_on p = 0" if "p \<in> set fin" for p
    using s(2) that footers_concat_nil [of fin p] by simp
  show ?thesis
    using l f by (simp add: s(1))
qed

text \<open>In the two-page example the second page has the footer and the first has none.\<close>

theorem footer_on_last_page_only_witness:
  "\<exists>resp. export_group_standings_pdf env1 db2 1 None = Inr resp
      \<and> body resp \<noteq> [] \<and> footers_on (last (body resp)) = 1
      \<and> list_all (\<lambda>p. footers_on p = 0) (butlast (body resp))"
  using footer_on_last_page_only [OF export_db2]
  by (simp add: export_db2 list_all_iff)



end
